theory Spec2Isabelle
  imports Complex_Main "HOL-Library.Multiset"
begin

section \<open>JavaScript values\<close>

text \<open>
  The services receive parsed JSON bodies and query strings. A JavaScript number is NaN,
  an infinity or a finite value; finite values are kept as exact rationals (the rounding
  of IEEE doubles is not part of this development, and \<open>-0\<close> is not told apart from
  \<open>0\<close>).
\<close>

datatype jsnum = NaN | PInf | NInf | Fin rat

datatype jsval =
    JUndefined
  | JNull
  | JBool bool
  | JNum jsnum
  | JStr string
  | JArr "jsval list"
  | JObj "(string \<times> jsval) list"

datatype db_error =
    Rejected string
  | CheckViolation string
  | Fault string

datatype error =
    ValidationError string
  | TypeError string
  | DbError db_error

text \<open>Truthiness (\<open>ToBoolean\<close>), as used by \<open>!x\<close> and \<open>x || y\<close>.\<close>

fun num_truthy :: "jsnum \<Rightarrow> bool" where
  "num_truthy NaN = False"
| "num_truthy (Fin r) = (r \<noteq> 0)"
| "num_truthy PInf = True"
| "num_truthy NInf = True"

fun truthy :: "jsval \<Rightarrow> bool" where
  "truthy JUndefined = False"
| "truthy JNull = False"
| "truthy (JBool b) = b"
| "truthy (JNum n) = num_truthy n"
| "truthy (JStr s) = (s \<noteq> [])"
| "truthy (JArr xs) = True"
| "truthy (JObj kvs) = True"

text \<open>\<open>a || b\<close> on numbers.\<close>

definition num_or :: "jsnum \<Rightarrow> jsnum \<Rightarrow> jsnum" where
  "num_or a b = (if num_truthy a then a else b)"

text \<open>The relational operators on numbers: every comparison with NaN is false.\<close>

fun num_lt :: "jsnum \<Rightarrow> jsnum \<Rightarrow> bool" where
  "num_lt NaN b = False"
| "num_lt a NaN = False"
| "num_lt PInf b = False"
| "num_lt NInf b = (b \<noteq> NInf)"
| "num_lt (Fin x) PInf = True"
| "num_lt (Fin x) NInf = False"
| "num_lt (Fin x) (Fin y) = (x < y)"

definition num_gt :: "jsnum \<Rightarrow> jsnum \<Rightarrow> bool" where
  "num_gt a b = num_lt b a"


text \<open>
  Property access \<open>data.key\<close> for the telemetry field names: reading a property of
  \<open>undefined\<close> or \<open>null\<close> throws a TypeError, an object yields the stored value or
  \<open>undefined\<close>, and numbers, booleans, strings and arrays have no property of these names.
\<close>

fun get_prop :: "jsval \<Rightarrow> string \<Rightarrow> error + jsval" where
  "get_prop JUndefined k = Inl (TypeError ''Cannot read properties of undefined'')"
| "get_prop JNull k = Inl (TypeError ''Cannot read properties of null'')"
| "get_prop (JObj kvs) k = Inr (case map_of kvs k of None \<Rightarrow> JUndefined | Some v \<Rightarrow> v)"
| "get_prop v k = Inr JUndefined"

definition thenE :: "error + 'a \<Rightarrow> ('a \<Rightarrow> error + 'b) \<Rightarrow> error + 'b" where
  "thenE m f = (case m of Inl e \<Rightarrow> Inl e | Inr x \<Rightarrow> f x)"

section \<open>Telemetry classification (ingestionController.js)\<close>

datatype telemetry_type = Meter | Vehicle | Unknown

text \<open>
  \<open>identifyTelemetryType\<close>: the meter probe comes first, each probe is three
  \<open>!== undefined\<close> tests joined by \<open>&&\<close>, evaluated left to right.
\<close>

definition defined_prop :: "jsval \<Rightarrow> string \<Rightarrow> error + bool" where
  "defined_prop data k = thenE (get_prop data k) (\<lambda>v. Inr (v \<noteq> JUndefined))"

definition all_defined :: "jsval \<Rightarrow> string \<Rightarrow> string \<Rightarrow> string \<Rightarrow> error + bool" where
  "all_defined data k1 k2 k3 =
     thenE (defined_prop data k1) (\<lambda>b1. if \<not> b1 then Inr False else
     thenE (defined_prop data k2) (\<lambda>b2. if \<not> b2 then Inr False else
     defined_prop data k3))"

definition identifyTelemetryType :: "jsval \<Rightarrow> error + telemetry_type" where
  "identifyTelemetryType data =
     thenE (all_defined data ''meterId'' ''kwhConsumedAc'' ''voltage'') (\<lambda>m.
       if m then Inr Meter
       else thenE (all_defined data ''vehicleId'' ''soc'' ''kwhDeliveredDc'') (\<lambda>v.
         if v then Inr Vehicle else Inr Unknown))"

text \<open>A parsed JSON object never holds \<open>undefined\<close> as a value.\<close>

definition json_object :: "(string \<times> jsval) list \<Rightarrow> bool" where
  "json_object kvs = (\<forall>(k, v) \<in> set kvs. v \<noteq> JUndefined)"

definition has_keys :: "(string \<times> jsval) list \<Rightarrow> string list \<Rightarrow> bool" where
  "has_keys kvs ks = (set ks \<subseteq> fst ` set kvs)"

text \<open>A field is present when reading it does not give \<open>undefined\<close>.\<close>

definition present :: "(string \<times> jsval) list \<Rightarrow> string list \<Rightarrow> bool" where
  "present kvs ks =
     list_all (\<lambda>k. case map_of kvs k of None \<Rightarrow> False | Some v \<Rightarrow> v \<noteq> JUndefined) ks"

definition meter_keys :: "string list" where
  "meter_keys = [''meterId'', ''kwhConsumedAc'', ''voltage'']"

definition vehicle_keys :: "string list" where
  "vehicle_keys = [''vehicleId'', ''soc'', ''kwhDeliveredDc'']"

section \<open>Alert threshold (analyticsController.js)\<close>

text \<open>
  \<open>const threshold = parseFloat(req.query.threshold) || 85\<close>. \<open>parseFloat\<close> belongs to
  the JavaScript runtime and is a parameter here.
\<close>

definition alerts_threshold :: "(jsval \<Rightarrow> jsnum) \<Rightarrow> jsval \<Rightarrow> jsnum" where
  "alerts_threshold parseFloat q = num_or (parseFloat q) (Fin 85)"

section \<open>History tables and the 24-hour summary (schema.sql)\<close>

text \<open>
  Rows of the two append-only history tables, as the store holds them: identifiers are
  strings, \<open>DECIMAL\<close> columns are exact rationals, \<open>TIMESTAMPTZ\<close> columns are
  microseconds since the epoch. The system-assigned columns \<open>id\<close> and \<open>ingested_at\<close>
  are read by no query of the services and are left out. A \<open>DECIMAL\<close> column holding
  the special value NaN is outside this development.
\<close>

type_synonym instant = int

record meter_history_row =
  mh_meter_id :: string
  mh_kwh_consumed_ac :: rat
  mh_voltage :: rat
  mh_recorded_at :: instant

record vehicle_history_row =
  vh_vehicle_id :: string
  vh_soc :: rat
  vh_kwh_delivered_dc :: rat
  vh_battery_temp :: rat
  vh_recorded_at :: instant

text \<open>A row of the materialized view \<open>vehicle_24h_performance\<close>.\<close>

record perf_row =
  pr_vehicle_id :: string
  pr_total_dc_delivered :: "rat option"
  pr_total_ac_consumed :: rat
  pr_efficiency_ratio :: "rat option"
  pr_avg_battery_temp :: "rat option"
  pr_vehicle_readings :: nat
  pr_meter_readings :: nat
  pr_first_reading :: "instant option"
  pr_last_reading :: "instant option"
  pr_computed_at :: instant

text \<open>
  SQL aggregates over the selected rows. \<open>SUM\<close>, \<open>AVG\<close>, \<open>MIN\<close> and \<open>MAX\<close> of no
  rows are NULL (\<open>None\<close>); \<open>COUNT(*)\<close> of no rows is 0. \<open>AVG\<close> is taken exactly; the
  store rounds it to a scale of at least 16 significant digits, on both computation paths
  alike.
\<close>

definition sql_sum :: "rat list \<Rightarrow> rat option" where
  "sql_sum xs = (if xs = [] then None else Some (sum_list xs))"

definition sql_avg :: "rat list \<Rightarrow> rat option" where
  "sql_avg xs = (if xs = [] then None else Some (sum_list xs / of_nat (length xs)))"

definition sql_min :: "instant list \<Rightarrow> instant option" where
  "sql_min xs = (case xs of [] \<Rightarrow> None | y # ys \<Rightarrow> Some (fold min ys y))"

definition sql_max :: "instant list \<Rightarrow> instant option" where
  "sql_max xs = (case xs of [] \<Rightarrow> None | y # ys \<Rightarrow> Some (fold max ys y))"

definition coalesce :: "'a option \<Rightarrow> 'a \<Rightarrow> 'a" where
  "coalesce v d = (case v of None \<Rightarrow> d | Some x \<Rightarrow> x)"

text \<open>\<open>ROUND(x, s)\<close> on \<open>numeric\<close>: to \<open>s\<close> decimals, ties away from zero.\<close>

definition sql_round :: "rat \<Rightarrow> nat \<Rightarrow> rat" where
  "sql_round x s = sgn x * of_int \<lfloor>\<bar>x\<bar> * 10 ^ s + 1 / 2\<rfloor> / 10 ^ s"

text \<open>\<open>NOW() - INTERVAL '24 hours'\<close>, in microseconds.\<close>

definition time_window :: "instant \<Rightarrow> instant" where
  "time_window now_us = now_us - 24 * 60 * 60 * 1000000"

text \<open>
  The two common table expressions. \<open>GROUP BY\<close> yields one row per identifier that has
  a row in the window (SQL leaves the order of the groups open).
\<close>

record vehicle_dc_total =
  vt_vehicle_id :: string
  vt_total_dc_delivered :: "rat option"
  vt_avg_battery_temp :: "rat option"
  vt_reading_count :: nat
  vt_first_reading :: "instant option"
  vt_last_reading :: "instant option"

record meter_ac_total =
  mt_meter_id :: string
  mt_total_ac_consumed :: "rat option"
  mt_reading_count :: nat

definition vehicle_group :: "vehicle_history_row list \<Rightarrow> string \<Rightarrow> vehicle_dc_total" where
  "vehicle_group rows vid =
     (let g = filter (\<lambda>r. vh_vehicle_id r = vid) rows in
      \<lparr> vt_vehicle_id = vid,
        vt_total_dc_delivered = sql_sum (map vh_kwh_delivered_dc g),
        vt_avg_battery_temp = sql_avg (map vh_battery_temp g),
        vt_reading_count = length g,
        vt_first_reading = sql_min (map vh_recorded_at g),
        vt_last_reading = sql_max (map vh_recorded_at g) \<rparr>)"

definition meter_group :: "meter_history_row list \<Rightarrow> string \<Rightarrow> meter_ac_total" where
  "meter_group rows mid =
     (let g = filter (\<lambda>r. mh_meter_id r = mid) rows in
      \<lparr> mt_meter_id = mid,
        mt_total_ac_consumed = sql_sum (map mh_kwh_consumed_ac g),
        mt_reading_count = length g \<rparr>)"

definition vehicle_dc_totals :: "vehicle_history_row list \<Rightarrow> instant \<Rightarrow> vehicle_dc_total list" where
  "vehicle_dc_totals vh start_time =
     (let rows = filter (\<lambda>r. vh_recorded_at r \<ge> start_time) vh in
      map (vehicle_group rows) (remdups (map vh_vehicle_id rows)))"

definition meter_ac_totals :: "meter_history_row list \<Rightarrow> instant \<Rightarrow> meter_ac_total list" where
  "meter_ac_totals mh start_time =
     (let rows = filter (\<lambda>r. mh_recorded_at r \<ge> start_time) mh in
      map (meter_group rows) (remdups (map mh_meter_id rows)))"

text \<open>
  The final \<open>SELECT\<close> with its \<open>LEFT JOIN\<close>: \<open>m\<close> is the meter total with the
  vehicle's identifier, or all NULL when there is none. A NULL operand makes the quotient
  NULL. The division is exact here; the store rounds the quotient to a scale of at least
  16 significant digits before \<open>ROUND\<close> is applied.
\<close>

definition view_row :: "instant \<Rightarrow> meter_ac_total list \<Rightarrow> vehicle_dc_total \<Rightarrow> perf_row" where
  "view_row now_us ms v =
     (let m = find (\<lambda>m. vt_vehicle_id v = mt_meter_id m) ms;
          m_total_ac_consumed = (case m of None \<Rightarrow> None | Some t \<Rightarrow> mt_total_ac_consumed t);
          m_reading_count = (case m of None \<Rightarrow> None | Some t \<Rightarrow> Some (mt_reading_count t)) in
      \<lparr> pr_vehicle_id = vt_vehicle_id v,
        pr_total_dc_delivered = vt_total_dc_delivered v,
        pr_total_ac_consumed = coalesce m_total_ac_consumed 0,
        pr_efficiency_ratio =
          (if coalesce m_total_ac_consumed 0 > 0
           then (case (vt_total_dc_delivered v, m_total_ac_consumed) of
                   (Some dc, Some ac) \<Rightarrow> Some (sql_round (dc / ac * 100) 2)
                 | _ \<Rightarrow> None)
           else Some 0),
        pr_avg_battery_temp = vt_avg_battery_temp v,
        pr_vehicle_readings = vt_reading_count v,
        pr_meter_readings = coalesce m_reading_count 0,
        pr_first_reading = vt_first_reading v,
        pr_last_reading = vt_last_reading v,
        pr_computed_at = now_us \<rparr>)"

definition vehicle_24h_performance ::
  "vehicle_history_row list \<Rightarrow> meter_history_row list \<Rightarrow> instant \<Rightarrow> perf_row list" where
  "vehicle_24h_performance vh mh now_us =
     (let start_time = time_window now_us in
      map (view_row now_us (meter_ac_totals mh start_time)) (vehicle_dc_totals vh start_time))"

section \<open>Analytics service (analyticsService.js)\<close>

text \<open>
  What the driver hands to JavaScript for a column, and what \<open>formatPerformanceData\<close>
  reads from its argument: \<open>null\<close>, or a number, or the decimal text of a number (a
  \<open>numeric\<close> or \<open>bigint\<close> column, the result of \<open>toFixed\<close>). A text is represented
  by the number it denotes, so \<open>parseFloat\<close> returns that number in both cases.
\<close>

datatype cell = Null | Val jsnum

fun parseFloat_cell :: "cell \<Rightarrow> jsnum" where
  "parseFloat_cell Null = NaN"
| "parseFloat_cell (Val n) = n"


definition numeric_cell :: "rat option \<Rightarrow> cell" where
  "numeric_cell v = (case v of None \<Rightarrow> Null | Some r \<Rightarrow> Val (Fin r))"












text \<open>
  \<open>getEfficiencyAlerts(threshold = 85)\<close>: \<open>None\<close> is a call without argument. A
  comparison with NULL selects nothing. \<open>ORDER BY\<close> is taken as a stable sort (SQL leaves
  the order of equal keys open). The threshold is a finite number; how the store compares
  with NaN or an infinity is not part of this development.
\<close>

record alert_view =
  al_vehicleId :: string
  al_efficiencyRatio :: jsnum
  al_totalAcConsumed :: jsnum
  al_totalDcDelivered :: jsnum
  al_avgBatteryTemp :: jsnum
  al_alert :: string

definition alert_selected :: "rat \<Rightarrow> perf_row \<Rightarrow> bool" where
  "alert_selected threshold r =
     (case pr_efficiency_ratio r of None \<Rightarrow> False | Some e \<Rightarrow> e > 0 \<and> e < threshold)"

definition getEfficiencyAlerts :: "perf_row list \<Rightarrow> rat option \<Rightarrow> alert_view list" where
  "getEfficiencyAlerts mv threshold_arg =
     (let threshold = (case threshold_arg of None \<Rightarrow> 85 | Some t \<Rightarrow> t);
          rows = sort_key (\<lambda>r. coalesce (pr_efficiency_ratio r) 0) (filter (alert_selected threshold) mv)
      in map (\<lambda>row.
           \<lparr> al_vehicleId = pr_vehicle_id row,
             al_efficiencyRatio = parseFloat_cell (numeric_cell (pr_efficiency_ratio row)),
             al_totalAcConsumed = parseFloat_cell (numeric_cell (Some (pr_total_ac_consumed row))),
             al_totalDcDelivered = parseFloat_cell (numeric_cell (pr_total_dc_delivered row)),
             al_avgBatteryTemp = parseFloat_cell (numeric_cell (pr_avg_battery_temp row)),
             al_alert = ''Low efficiency - possible hardware fault or energy leakage'' \<rparr>) rows)"

section \<open>Current-status tables and the store\<close>

record meter_status_row =
  ms_kwh_consumed_ac :: rat
  ms_voltage :: rat
  ms_last_updated :: instant

record vehicle_status_row =
  vs_soc :: rat
  vs_kwh_delivered_dc :: rat
  vs_battery_temp :: rat
  vs_last_updated :: instant
  vs_is_charging :: bool

text \<open>The four tables. The status tables have the device id as primary key.\<close>

record store =
  meter_telemetry_history :: "meter_history_row list"
  vehicle_telemetry_history :: "vehicle_history_row list"
  meter_current_status :: "string \<rightharpoonup> meter_status_row"
  vehicle_current_status :: "string \<rightharpoonup> vehicle_status_row"

datatype svc = MeterSvc | VehicleSvc

datatype stmt =
    Connect svc
  | Begin svc
  | Commit svc
  | InsertHistory svc
  | SelectPrevStatus
  | UpsertStatus svc nat

text \<open>
  What the services rely on but do not contain, taken as parameters:
  \<^item> \<open>date_valid v\<close>: \<open>new Date(v)\<close> denotes an instant (\<open>getTime()\<close> is not NaN);
  \<^item> \<open>gt_text v q\<close>: the value of \<open>v > t\<close>, \<open>t\<close> the text of the stored number
    \<open>q\<close>, for a string, array or object \<open>v\<close>;
  \<^item> \<open>varchar n\<close>, \<open>numeric p s\<close>, \<open>timestamptz\<close>: the value the store keeps in a
    \<open>NOT NULL\<close> column of that type for a query parameter, or \<open>None\<close> when it rejects
    the parameter;
  \<^item> \<open>param_text\<close>: the text sent for a parameter that is not a string (\<open>None\<close> is
    NULL);
  \<^item> \<open>query_fails\<close>: the statements that fail for a reason outside their data
    (connection lost, timeout).
\<close>

record env =
  date_valid :: "jsval \<Rightarrow> bool"
  gt_text :: "jsval \<Rightarrow> rat \<Rightarrow> bool"
  varchar :: "nat \<Rightarrow> jsval \<Rightarrow> string option"
  numeric :: "nat \<Rightarrow> nat \<Rightarrow> jsval \<Rightarrow> rat option"
  timestamptz :: "jsval \<Rightarrow> instant option"
  param_text :: "jsval \<Rightarrow> string option"
  query_fails :: "stmt \<Rightarrow> bool"

type_synonym meter_params = "jsval \<times> jsval \<times> jsval \<times> jsval"
type_synonym vehicle_params = "jsval \<times> jsval \<times> jsval \<times> jsval \<times> jsval"

text \<open>The column types of the meter tables (history and status declare the same).\<close>

definition meter_row_of :: "env \<Rightarrow> meter_params \<Rightarrow> db_error + meter_history_row" where
  "meter_row_of env p =
     (case p of (meterId, kwhConsumedAc, voltage, timestamp) \<Rightarrow>
        (case varchar env 100 meterId of None \<Rightarrow> Inl (Rejected ''meter_id'') | Some a \<Rightarrow>
        (case numeric env 10 4 kwhConsumedAc of None \<Rightarrow> Inl (Rejected ''kwh_consumed_ac'') | Some b \<Rightarrow>
        (case numeric env 8 2 voltage of None \<Rightarrow> Inl (Rejected ''voltage'') | Some c \<Rightarrow>
        (case timestamptz env timestamp of None \<Rightarrow> Inl (Rejected ''recorded_at'') | Some t \<Rightarrow>
           Inr \<lparr> mh_meter_id = a, mh_kwh_consumed_ac = b, mh_voltage = c, mh_recorded_at = t \<rparr>)))))"

text \<open>
  The column types of the vehicle tables, with \<open>CHECK (soc >= 0 AND soc <= 100)\<close> on
  the stored value.
\<close>

definition vehicle_row_of :: "env \<Rightarrow> vehicle_params \<Rightarrow> db_error + vehicle_history_row" where
  "vehicle_row_of env p =
     (case p of (vehicleId, soc, kwhDeliveredDc, batteryTemp, timestamp) \<Rightarrow>
        (case varchar env 100 vehicleId of None \<Rightarrow> Inl (Rejected ''vehicle_id'') | Some a \<Rightarrow>
        (case numeric env 5 2 soc of None \<Rightarrow> Inl (Rejected ''soc'') | Some b \<Rightarrow>
        (case numeric env 10 4 kwhDeliveredDc of None \<Rightarrow> Inl (Rejected ''kwh_delivered_dc'') | Some c \<Rightarrow>
        (case numeric env 5 2 batteryTemp of None \<Rightarrow> Inl (Rejected ''battery_temp'') | Some d \<Rightarrow>
        (case timestamptz env timestamp of None \<Rightarrow> Inl (Rejected ''recorded_at'') | Some t \<Rightarrow>
           if b \<ge> 0 \<and> b \<le> 100
           then Inr \<lparr> vh_vehicle_id = a, vh_soc = b, vh_kwh_delivered_dc = c, vh_battery_temp = d,
                      vh_recorded_at = t \<rparr>
           else Inl (CheckViolation ''soc'')))))))"

fun all_rows :: "(db_error + 'a) list \<Rightarrow> db_error + 'a list" where
  "all_rows [] = Inr []"
| "all_rows (x # xs) =
     (case x of Inl e \<Rightarrow> Inl e
      | Inr r \<Rightarrow> (case all_rows xs of Inl e \<Rightarrow> Inl e | Inr rs \<Rightarrow> Inr (r # rs)))"

text \<open>\<open>INSERT INTO ..._telemetry_history ... VALUES (...), (...)\<close>: all rows or none.\<close>

definition insert_meter_history :: "env \<Rightarrow> meter_params list \<Rightarrow> store \<Rightarrow> db_error + store" where
  "insert_meter_history env ps s =
     (case all_rows (map (meter_row_of env) ps) of
        Inl e \<Rightarrow> Inl e
      | Inr rows \<Rightarrow> Inr (s\<lparr> meter_telemetry_history := meter_telemetry_history s @ rows \<rparr>))"

definition insert_vehicle_history :: "env \<Rightarrow> vehicle_params list \<Rightarrow> store \<Rightarrow> db_error + store" where
  "insert_vehicle_history env ps s =
     (case all_rows (map (vehicle_row_of env) ps) of
        Inl e \<Rightarrow> Inl e
      | Inr rows \<Rightarrow> Inr (s\<lparr> vehicle_telemetry_history := vehicle_telemetry_history s @ rows \<rparr>))"

text \<open>\<open>INSERT INTO ..._current_status ... ON CONFLICT (id) DO UPDATE SET ...\<close>.\<close>

definition upsert_meter_status :: "env \<Rightarrow> meter_params \<Rightarrow> store \<Rightarrow> db_error + store" where
  "upsert_meter_status env p s =
     (case meter_row_of env p of
        Inl e \<Rightarrow> Inl e
      | Inr r \<Rightarrow> Inr (s\<lparr> meter_current_status := (meter_current_status s)(mh_meter_id r \<mapsto>
            \<lparr> ms_kwh_consumed_ac = mh_kwh_consumed_ac r, ms_voltage = mh_voltage r,
              ms_last_updated = mh_recorded_at r \<rparr>) \<rparr>))"

definition upsert_vehicle_status :: "env \<Rightarrow> vehicle_params \<Rightarrow> bool \<Rightarrow> store \<Rightarrow> db_error + store" where
  "upsert_vehicle_status env p is_charging s =
     (case vehicle_row_of env p of
        Inl e \<Rightarrow> Inl e
      | Inr r \<Rightarrow> Inr (s\<lparr> vehicle_current_status := (vehicle_current_status s)(vh_vehicle_id r \<mapsto>
            \<lparr> vs_soc = vh_soc r, vs_kwh_delivered_dc = vh_kwh_delivered_dc r,
              vs_battery_temp = vh_battery_temp r, vs_last_updated = vh_recorded_at r,
              vs_is_charging = is_charging \<rparr>) \<rparr>))"

text \<open>\<open>SELECT soc FROM vehicle_current_status WHERE vehicle_id = $1\<close>: the rows found.\<close>

definition select_soc :: "env \<Rightarrow> jsval \<Rightarrow> store \<Rightarrow> db_error + rat list" where
  "select_soc env vehicleId s =
     (case (case vehicleId of JStr v \<Rightarrow> Some v | _ \<Rightarrow> param_text env vehicleId) of
        None \<Rightarrow> Inr []
      | Some k \<Rightarrow> (case vehicle_current_status s k of None \<Rightarrow> Inr [] | Some r \<Rightarrow> Inr [vs_soc r]))"

section \<open>Transactions (database.js)\<close>

text \<open>\<open>client.query\<close>: the statement fails on its own or is rejected by the store.\<close>

definition client_query :: "env \<Rightarrow> stmt \<Rightarrow> (store \<Rightarrow> db_error + 'a) \<Rightarrow> store \<Rightarrow> error + 'a" where
  "client_query env q run s =
     (if query_fails env q then Inl (DbError (Fault ''statement failed''))
      else (case run s of Inl e \<Rightarrow> Inl (DbError e) | Inr x \<Rightarrow> Inr x))"

text \<open>
  \<open>transaction(callback)\<close>: \<open>BEGIN\<close>, the callback, \<open>COMMIT\<close>; any error leads to
  \<open>ROLLBACK\<close> and is thrown again. The store's guarantee is taken as given: the
  statements between \<open>BEGIN\<close> and \<open>COMMIT\<close> take effect together at \<open>COMMIT\<close>, and
  not at all after \<open>ROLLBACK\<close> or a failed \<open>COMMIT\<close>. One caller runs at a time. The
  service tag only names the statements for \<open>query_fails\<close>.
\<close>

definition transaction ::
  "env \<Rightarrow> svc \<Rightarrow> (store \<Rightarrow> error + store \<times> 'a) \<Rightarrow> store \<Rightarrow> store \<times> (error + 'a)" where
  "transaction env sv callback s =
     (if query_fails env (Connect sv) then (s, Inl (DbError (Fault ''connect failed'')))
      else if query_fails env (Begin sv) then (s, Inl (DbError (Fault ''BEGIN failed'')))
      else (case callback s of
              Inl e \<Rightarrow> (s, Inl e)
            | Inr (s', result) \<Rightarrow>
                if query_fails env (Commit sv) then (s, Inl (DbError (Fault ''COMMIT failed'')))
                else (s', Inr result)))"

section \<open>Meter service (meterService.js)\<close>

definition meter_fields :: "jsval \<Rightarrow> error + meter_params" where
  "meter_fields data =
     thenE (get_prop data ''meterId'') (\<lambda>meterId.
     thenE (get_prop data ''kwhConsumedAc'') (\<lambda>kwhConsumedAc.
     thenE (get_prop data ''voltage'') (\<lambda>voltage.
     thenE (get_prop data ''timestamp'') (\<lambda>timestamp.
       Inr (meterId, kwhConsumedAc, voltage, timestamp)))))"

definition is_string :: "jsval \<Rightarrow> bool" where
  "is_string v = (case v of JStr s \<Rightarrow> True | _ \<Rightarrow> False)"

definition is_number :: "jsval \<Rightarrow> bool" where
  "is_number v = (case v of JNum n \<Rightarrow> True | _ \<Rightarrow> False)"

text \<open>\<open>typeof v !== 'number' || v < lo\<close> and \<open>... || v > hi\<close>.\<close>

definition not_number_or_below :: "jsval \<Rightarrow> rat \<Rightarrow> bool" where
  "not_number_or_below v lo = (case v of JNum n \<Rightarrow> num_lt n (Fin lo) | _ \<Rightarrow> True)"

definition not_number_or_outside :: "jsval \<Rightarrow> rat \<Rightarrow> rat \<Rightarrow> bool" where
  "not_number_or_outside v lo hi =
     (case v of JNum n \<Rightarrow> num_lt n (Fin lo) \<or> num_gt n (Fin hi) | _ \<Rightarrow> True)"

definition validateMeterData :: "env \<Rightarrow> jsval \<Rightarrow> error + unit" where
  "validateMeterData env data =
     thenE (meter_fields data) (\<lambda>(meterId, kwhConsumedAc, voltage, timestamp).
       if \<not> truthy meterId \<or> \<not> is_string meterId
       then Inl (ValidationError ''Invalid meterId: must be a non-empty string'')
       else if not_number_or_below kwhConsumedAc 0
       then Inl (ValidationError ''Invalid kwhConsumedAc: must be a positive number'')
       else if not_number_or_below voltage 0
       then Inl (ValidationError ''Invalid voltage: must be a positive number'')
       else if \<not> truthy timestamp
       then Inl (ValidationError ''Invalid timestamp: timestamp is required'')
       else if \<not> date_valid env timestamp
       then Inl (ValidationError ''Invalid timestamp: must be a valid ISO 8601 date string'')
       else Inr ())"

record meter_result =
  mr_meterId :: jsval
  mr_type :: string
  mr_stored :: bool
  mr_timestamp :: jsval

definition MeterService_ingest :: "env \<Rightarrow> jsval \<Rightarrow> store \<Rightarrow> store \<times> (error + meter_result)" where
  "MeterService_ingest env meterData s =
     (case meter_fields meterData of
        Inl e \<Rightarrow> (s, Inl e)
      | Inr (meterId, kwhConsumedAc, voltage, timestamp) \<Rightarrow>
          (case validateMeterData env meterData of
             Inl e \<Rightarrow> (s, Inl e)
           | Inr u \<Rightarrow>
               transaction env MeterSvc (\<lambda>s0.
                 thenE (client_query env (InsertHistory MeterSvc)
                          (insert_meter_history env [(meterId, kwhConsumedAc, voltage, timestamp)]) s0) (\<lambda>s1.
                 thenE (client_query env (UpsertStatus MeterSvc 0)
                          (upsert_meter_status env (meterId, kwhConsumedAc, voltage, timestamp)) s1) (\<lambda>s2.
                 Inr (s2, \<lparr> mr_meterId = meterId, mr_type = ''meter'', mr_stored = True,
                            mr_timestamp = timestamp \<rparr>)))) s))"

text \<open>
  \<open>x.length\<close> for the guard of \<open>ingestBatch\<close> (never read on \<open>undefined\<close> or
  \<open>null\<close>, which the guard has caught before).
\<close>

fun js_length :: "jsval \<Rightarrow> jsval" where
  "js_length (JArr xs) = JNum (Fin (of_nat (length xs)))"
| "js_length (JStr cs) = JNum (Fin (of_nat (length cs)))"
| "js_length (JObj kvs) = (case map_of kvs ''length'' of None \<Rightarrow> JUndefined | Some v \<Rightarrow> v)"
| "js_length v = JUndefined"

fun all_fields :: "(jsval \<Rightarrow> error + 'p) \<Rightarrow> jsval list \<Rightarrow> error + 'p list" where
  "all_fields f [] = Inr []"
| "all_fields f (d # ds) = thenE (f d) (\<lambda>p. thenE (all_fields f ds) (\<lambda>ps. Inr (p # ps)))"



section \<open>Vehicle service (vehicleService.js)\<close>

definition vehicle_fields :: "jsval \<Rightarrow> error + vehicle_params" where
  "vehicle_fields data =
     thenE (get_prop data ''vehicleId'') (\<lambda>vehicleId.
     thenE (get_prop data ''soc'') (\<lambda>soc.
     thenE (get_prop data ''kwhDeliveredDc'') (\<lambda>kwhDeliveredDc.
     thenE (get_prop data ''batteryTemp'') (\<lambda>batteryTemp.
     thenE (get_prop data ''timestamp'') (\<lambda>timestamp.
       Inr (vehicleId, soc, kwhDeliveredDc, batteryTemp, timestamp))))))"

definition validateVehicleData :: "env \<Rightarrow> jsval \<Rightarrow> error + unit" where
  "validateVehicleData env data =
     thenE (vehicle_fields data) (\<lambda>(vehicleId, soc, kwhDeliveredDc, batteryTemp, timestamp).
       if \<not> truthy vehicleId \<or> \<not> is_string vehicleId
       then Inl (ValidationError ''Invalid vehicleId: must be a non-empty string'')
       else if not_number_or_outside soc 0 100
       then Inl (ValidationError ''Invalid soc: must be a number between 0 and 100'')
       else if not_number_or_below kwhDeliveredDc 0
       then Inl (ValidationError ''Invalid kwhDeliveredDc: must be a positive number'')
       else if \<not> is_number batteryTemp
       then Inl (ValidationError ''Invalid batteryTemp: must be a number'')
       else if \<not> truthy timestamp
       then Inl (ValidationError ''Invalid timestamp: timestamp is required'')
       else if \<not> date_valid env timestamp
       then Inl (ValidationError ''Invalid timestamp: must be a valid ISO 8601 date string'')
       else Inr ())"

text \<open>
  \<open>soc > prevStatus.rows[0].soc\<close>: the driver returns a \<open>DECIMAL\<close> column as text. A
  number, \<open>undefined\<close>, \<open>null\<close> or a boolean on the left is compared numerically.
\<close>

fun gt_stored :: "env \<Rightarrow> jsval \<Rightarrow> rat \<Rightarrow> bool" where
  "gt_stored env (JNum n) q = num_gt n (Fin q)"
| "gt_stored env JUndefined q = False"
| "gt_stored env JNull q = (0 > q)"
| "gt_stored env (JBool b) q = ((if b then 1 else 0) > q)"
| "gt_stored env v q = gt_text env v q"

record vehicle_result =
  vr_vehicleId :: jsval
  vr_type :: string
  vr_stored :: bool
  vr_timestamp :: jsval
  vr_isCharging :: bool

definition VehicleService_ingest :: "env \<Rightarrow> jsval \<Rightarrow> store \<Rightarrow> store \<times> (error + vehicle_result)" where
  "VehicleService_ingest env vehicleData s =
     (case vehicle_fields vehicleData of
        Inl e \<Rightarrow> (s, Inl e)
      | Inr (vehicleId, soc, kwhDeliveredDc, batteryTemp, timestamp) \<Rightarrow>
          (case validateVehicleData env vehicleData of
             Inl e \<Rightarrow> (s, Inl e)
           | Inr u \<Rightarrow>
               transaction env VehicleSvc (\<lambda>s0.
                 thenE (client_query env (InsertHistory VehicleSvc)
                          (insert_vehicle_history env
                             [(vehicleId, soc, kwhDeliveredDc, batteryTemp, timestamp)]) s0) (\<lambda>s1.
                 thenE (client_query env SelectPrevStatus (select_soc env vehicleId) s1) (\<lambda>prevStatus_rows.
                 let isCharging = (case prevStatus_rows of [] \<Rightarrow> False
                                   | prev_soc # rest \<Rightarrow> gt_stored env soc prev_soc) in
                 thenE (client_query env (UpsertStatus VehicleSvc 0)
                          (upsert_vehicle_status env
                             (vehicleId, soc, kwhDeliveredDc, batteryTemp, timestamp) isCharging) s1) (\<lambda>s2.
                 Inr (s2, \<lparr> vr_vehicleId = vehicleId, vr_type = ''vehicle'', vr_stored = True,
                            vr_timestamp = timestamp, vr_isCharging = isCharging \<rparr>))))) s))"

fun vehicle_upserts :: "env \<Rightarrow> jsval list \<Rightarrow> nat \<Rightarrow> store \<Rightarrow> error + store" where
  "vehicle_upserts env [] i s = Inr s"
| "vehicle_upserts env (vehicle # rest) i s =
     thenE (vehicle_fields vehicle) (\<lambda>p.
     thenE (client_query env (UpsertStatus VehicleSvc i) (upsert_vehicle_status env p False) s) (\<lambda>s'.
     vehicle_upserts env rest (Suc i) s'))"

definition VehicleService_ingestBatch :: "env \<Rightarrow> jsval \<Rightarrow> store \<Rightarrow> store \<times> (error + nat)" where
  "VehicleService_ingestBatch env vehicleBatch s =
     (if \<not> truthy vehicleBatch \<or> js_length vehicleBatch = JNum (Fin 0) then (s, Inr 0)
      else transaction env VehicleSvc (\<lambda>s0.
        (case vehicleBatch of
           JArr vehicles \<Rightarrow>
             thenE (all_fields vehicle_fields vehicles) (\<lambda>historyParams.
             thenE (client_query env (InsertHistory VehicleSvc)
                      (insert_vehicle_history env historyParams) s0) (\<lambda>s1.
             thenE (vehicle_upserts env vehicles 0 s1) (\<lambda>s2.
             Inr (s2, length vehicles))))
         | _ \<Rightarrow> Inl (TypeError ''vehicleBatch.forEach is not a function''))) s)"


section \<open>Strictly rising charge over a run of ingests\<close>





definition is_object :: "jsval \<Rightarrow> bool" where
  "is_object v = (case v of JObj kvs \<Rightarrow> True | _ \<Rightarrow> False)"

section \<open>What the store keeps for a batch record\<close>



section \<open>Batch endpoint (ingestionController.js)\<close>





section \<open>Sample data\<close>

text \<open>
  A small history around 2024-01-02T00:00:00Z: one reading of V1 lies outside the 24-hour
  window, and the meter of V2 reports a negative consumption.
\<close>

definition sample_now_ms :: int where
  "sample_now_ms = 1704153600000"

definition sample_vehicle_history :: "vehicle_history_row list" where
  "sample_vehicle_history =
     [\<lparr> vh_vehicle_id = ''V1'', vh_soc = 40, vh_kwh_delivered_dc = 100, vh_battery_temp = 20,
         vh_recorded_at = 1703000000000000 \<rparr>,
      \<lparr> vh_vehicle_id = ''V1'', vh_soc = 40, vh_kwh_delivered_dc = 5, vh_battery_temp = 25,
         vh_recorded_at = 1704110400000000 \<rparr>,
      \<lparr> vh_vehicle_id = ''V2'', vh_soc = 80, vh_kwh_delivered_dc = 5, vh_battery_temp = 30,
         vh_recorded_at = 1704110400000000 \<rparr>,
      \<lparr> vh_vehicle_id = ''V1'', vh_soc = 55, vh_kwh_delivered_dc = 8, vh_battery_temp = 27,
         vh_recorded_at = 1704114000000000 \<rparr>,
      \<lparr> vh_vehicle_id = ''V3'', vh_soc = 10, vh_kwh_delivered_dc = 4, vh_battery_temp = 18,
         vh_recorded_at = 1704117600000000 \<rparr>,
      \<lparr> vh_vehicle_id = ''V4'', vh_soc = 90, vh_kwh_delivered_dc = 19, vh_battery_temp = 22,
         vh_recorded_at = 1704117600000000 \<rparr>]"

definition sample_meter_history :: "meter_history_row list" where
  "sample_meter_history =
     [\<lparr> mh_meter_id = ''V1'', mh_kwh_consumed_ac = 50, mh_voltage = 230,
         mh_recorded_at = 1703000000000000 \<rparr>,
      \<lparr> mh_meter_id = ''V1'', mh_kwh_consumed_ac = 15, mh_voltage = 230,
         mh_recorded_at = 1704110400000000 \<rparr>,
      \<lparr> mh_meter_id = ''V2'', mh_kwh_consumed_ac = - 10, mh_voltage = 230,
         mh_recorded_at = 1704110400000000 \<rparr>,
      \<lparr> mh_meter_id = ''V3'', mh_kwh_consumed_ac = 10, mh_voltage = 229,
         mh_recorded_at = 1704117600000000 \<rparr>,
      \<lparr> mh_meter_id = ''V4'', mh_kwh_consumed_ac = 20, mh_voltage = 231,
         mh_recorded_at = 1704117600000000 \<rparr>]"

definition sample_summary :: "perf_row list" where
  "sample_summary =
     vehicle_24h_performance sample_vehicle_history sample_meter_history (1000 * sample_now_ms)"

text \<open>
  A sample environment for the examples. Finite numbers and strings are taken as
  PostgreSQL takes them: \<open>DECIMAL(p, s)\<close> rounds to \<open>s\<close> decimals, ties away from zero,
  and rejects a value that then needs more than \<open>p - s\<close> integer digits; \<open>VARCHAR(n)\<close>
  keeps a string of at most \<open>n\<close> characters; NULL (\<open>null\<close>, \<open>undefined\<close>) is rejected
  by \<open>NOT NULL\<close>. Three ISO instants are known. Every other parameter is rejected, and no
  statement fails on its own.
\<close>

definition pg_numeric :: "nat \<Rightarrow> nat \<Rightarrow> jsval \<Rightarrow> rat option" where
  "pg_numeric p s v =
     (case v of
        JNum (Fin r) \<Rightarrow> (let q = sql_round r s in if \<bar>q\<bar> < 10 ^ (p - s) then Some q else None)
      | _ \<Rightarrow> None)"

definition pg_varchar :: "nat \<Rightarrow> jsval \<Rightarrow> string option" where
  "pg_varchar n v = (case v of JStr cs \<Rightarrow> if length cs \<le> n then Some cs else None | _ \<Rightarrow> None)"

definition sample_instant :: "jsval \<Rightarrow> instant option" where
  "sample_instant v =
     (if v = JStr ''2024-01-01T12:00:00Z'' then Some 1704110400000000
      else if v = JStr ''2024-01-01T13:00:00Z'' then Some 1704114000000000
      else if v = JStr ''2024-01-01T14:00:00Z'' then Some 1704117600000000
      else None)"

definition sample_env :: env where
  "sample_env =
     \<lparr> date_valid = (\<lambda>v. sample_instant v \<noteq> None),
       gt_text = (\<lambda>v q. False),
       varchar = pg_varchar,
       numeric = pg_numeric,
       timestamptz = sample_instant,
       param_text = (\<lambda>v. None),
       query_fails = (\<lambda>q. False) \<rparr>"

definition empty_store :: store where
  "empty_store =
     \<lparr> meter_telemetry_history = [], vehicle_telemetry_history = [],
       meter_current_status = Map.empty, vehicle_current_status = Map.empty \<rparr>"

definition vehicle_reading :: "string \<Rightarrow> rat \<Rightarrow> rat \<Rightarrow> rat \<Rightarrow> string \<Rightarrow> jsval" where
  "vehicle_reading v soc kwh temp ts =
     JObj [(''vehicleId'', JStr v), (''soc'', JNum (Fin soc)), (''kwhDeliveredDc'', JNum (Fin kwh)),
           (''batteryTemp'', JNum (Fin temp)), (''timestamp'', JStr ts)]"

definition meter_reading :: "string \<Rightarrow> rat \<Rightarrow> rat \<Rightarrow> string \<Rightarrow> jsval" where
  "meter_reading m kwh voltage ts =
     JObj [(''meterId'', JStr m), (''kwhConsumedAc'', JNum (Fin kwh)), (''voltage'', JNum (Fin voltage)),
           (''timestamp'', JStr ts)]"

definition sample_env_upsert_fault :: env where
  "sample_env_upsert_fault =
     sample_env\<lparr> query_fails := (\<lambda>q. q = UpsertStatus VehicleSvc 0 \<or> q = UpsertStatus MeterSvc 0) \<rparr>"

definition sample_v40 :: jsval where
  "sample_v40 = vehicle_reading ''V1'' 40 5 25 ''2024-01-01T12:00:00Z''"

definition sample_v55 :: jsval where
  "sample_v55 = vehicle_reading ''V1'' 55 8 27 ''2024-01-01T13:00:00Z''"

definition sample_m1 :: jsval where
  "sample_m1 = meter_reading ''M1'' (125 / 10) 230 ''2024-01-01T12:00:00Z''"







section \<open>Results: classification\<close>

lemma defined_prop_obj:
  "defined_prop (JObj kvs) k = Inr (case map_of kvs k of None \<Rightarrow> False | Some v \<Rightarrow> v \<noteq> JUndefined)"
  by (simp add: defined_prop_def thenE_def split: option.splits)

lemma defined_prop_json:
  assumes "json_object kvs"
  shows "defined_prop (JObj kvs) k = Inr (k \<in> fst ` set kvs)"
proof (cases "map_of kvs k")
  case None
  then have "k \<notin> fst ` set kvs" by (simp add: map_of_eq_None_iff)
  with None show ?thesis by (simp add: defined_prop_obj)
next
  case (Some v)
  then have "(k, v) \<in> set kvs" by (rule map_of_SomeD)
  with assms Some show ?thesis
    by (force simp: defined_prop_obj json_object_def)
qed

lemma all_defined_json:
  assumes "json_object kvs"
  shows "all_defined (JObj kvs) k1 k2 k3 = Inr (has_keys kvs [k1, k2, k3])"
  by (simp add: all_defined_def defined_prop_json [OF assms] thenE_def has_keys_def)

lemma all_defined_obj:
  "all_defined (JObj kvs) k1 k2 k3 = Inr (present kvs [k1, k2, k3])"
  by (simp add: all_defined_def defined_prop_obj thenE_def present_def)

lemma identifyTelemetryType_obj:
  "identifyTelemetryType (JObj kvs) =
     Inr (if present kvs meter_keys then Meter
          else if present kvs vehicle_keys then Vehicle else Unknown)"
  by (simp add: identifyTelemetryType_def all_defined_obj thenE_def meter_keys_def
      vehicle_keys_def)

lemma present_json:
  assumes "json_object kvs"
  shows "present kvs [k1, k2, k3] = has_keys kvs [k1, k2, k3]"
proof -
  have "Inr (present kvs [k1, k2, k3]) = (Inr (has_keys kvs [k1, k2, k3]) :: error + bool)"
    using all_defined_obj [of kvs k1 k2 k3] all_defined_json [OF assms, of k1 k2 k3] by simp
  then show ?thesis by simp
qed

text \<open>
  C8. For every payload object the classifier answers without raising: Meter exactly when
  meterId, kwhConsumedAc and voltage are all present, otherwise Vehicle exactly when
  vehicleId, soc and kwhDeliveredDc are all present, otherwise Unknown; the meter test
  comes first, so a payload with both complete field sets is a Meter. For parsed JSON
  objects presence is membership of the key, and two objects with the same keys get the
  same answer whatever the values are: no value is inspected beyond being there.
\<close>

theorem identifyTelemetryType_key_presence:
  "identifyTelemetryType (JObj kvs) =
     Inr (if present kvs meter_keys then Meter
          else if present kvs vehicle_keys then Vehicle else Unknown)
   \<and> (json_object kvs \<longrightarrow>
        identifyTelemetryType (JObj kvs) =
          Inr (if has_keys kvs meter_keys then Meter
               else if has_keys kvs vehicle_keys then Vehicle else Unknown))
   \<and> (json_object kvs \<and> json_object kvs' \<and> fst ` set kvs = fst ` set kvs' \<longrightarrow>
        identifyTelemetryType (JObj kvs) = identifyTelemetryType (JObj kvs'))"
proof (intro conjI impI)
  show "identifyTelemetryType (JObj kvs) =
     Inr (if present kvs meter_keys then Meter
          else if present kvs vehicle_keys then Vehicle else Unknown)"
    by (rule identifyTelemetryType_obj)
next
  assume j: "json_object kvs"
  show "identifyTelemetryType (JObj kvs) =
          Inr (if has_keys kvs meter_keys then Meter
               else if has_keys kvs vehicle_keys then Vehicle else Unknown)"
    unfolding identifyTelemetryType_obj
    using present_json [OF j] by (simp add: meter_keys_def vehicle_keys_def)
next
  assume a: "json_object kvs \<and> json_object kvs' \<and> fst ` set kvs = fst ` set kvs'"
  then have "has_keys kvs ks = has_keys kvs' ks" for ks
    by (simp add: has_keys_def)
  with a show "identifyTelemetryType (JObj kvs) = identifyTelemetryType (JObj kvs')"
    unfolding identifyTelemetryType_obj
    using present_json [of kvs] present_json [of kvs']
    by (simp add: meter_keys_def vehicle_keys_def)
qed

theorem identifyTelemetryType_key_presence_witness:
  "json_object [(''meterId'', JStr ''M1''), (''kwhConsumedAc'', JNull), (''voltage'', JStr ''x''),
       (''vehicleId'', JStr ''V1''), (''soc'', JNum (Fin 40)), (''kwhDeliveredDc'', JNum (Fin 5))]
   \<and> identifyTelemetryType (JObj [(''meterId'', JStr ''M1''), (''kwhConsumedAc'', JNull),
       (''voltage'', JStr ''x''), (''vehicleId'', JStr ''V1''), (''soc'', JNum (Fin 40)),
       (''kwhDeliveredDc'', JNum (Fin 5))]) = Inr Meter
   \<and> identifyTelemetryType (JObj [(''vehicleId'', JStr ''V1''), (''soc'', JBool True),
       (''kwhDeliveredDc'', JNull), (''voltage'', JNum (Fin 230))]) = Inr Vehicle
   \<and> identifyTelemetryType (JObj [(''meterId'', JStr ''M1''), (''soc'', JNum (Fin 40)),
       (''kwhDeliveredDc'', JNum (Fin 5))]) = Inr Unknown"
  using identifyTelemetryType_key_presence [of "[(''meterId'', JStr ''M1''),
       (''kwhConsumedAc'', JNull), (''voltage'', JStr ''x''), (''vehicleId'', JStr ''V1''),
       (''soc'', JNum (Fin 40)), (''kwhDeliveredDc'', JNum (Fin 5))]"]
    identifyTelemetryType_key_presence [of "[(''vehicleId'', JStr ''V1''), (''soc'', JBool True),
       (''kwhDeliveredDc'', JNull), (''voltage'', JNum (Fin 230))]"]
    identifyTelemetryType_key_presence [of "[(''meterId'', JStr ''M1''), (''soc'', JNum (Fin 40)),
       (''kwhDeliveredDc'', JNum (Fin 5))]"]
  by (simp add: json_object_def present_def meter_keys_def vehicle_keys_def)

section \<open>Results: alert threshold\<close>

text \<open>
  C10. When the threshold query parameter parses to 0 or to NaN, the alerts endpoint uses
  85; in every other case it uses the parsed value. The effective threshold is therefore
  never 0 (and never NaN).
\<close>

theorem alerts_threshold_default:
  "(parseFloat q = NaN \<or> parseFloat q = Fin 0 \<longrightarrow> alerts_threshold parseFloat q = Fin 85)
   \<and> (parseFloat q \<noteq> NaN \<and> parseFloat q \<noteq> Fin 0 \<longrightarrow>
        alerts_threshold parseFloat q = parseFloat q)
   \<and> alerts_threshold parseFloat q \<noteq> Fin 0
   \<and> alerts_threshold parseFloat q \<noteq> NaN"
  by (cases "parseFloat q") (auto simp: alerts_threshold_def num_or_def)

theorem alerts_threshold_default_witness:
  "alerts_threshold (\<lambda>v. if v = JStr ''0'' then Fin 0 else if v = JStr ''90'' then Fin 90 else NaN)
      (JStr ''0'') = Fin 85
   \<and> alerts_threshold (\<lambda>v. if v = JStr ''0'' then Fin 0 else if v = JStr ''90'' then Fin 90 else NaN)
      JUndefined = Fin 85
   \<and> alerts_threshold (\<lambda>v. if v = JStr ''0'' then Fin 0 else if v = JStr ''90'' then Fin 90 else NaN)
      (JStr ''90'') = Fin 90"
  using alerts_threshold_default
      [of "\<lambda>v. if v = JStr ''0'' then Fin 0 else if v = JStr ''90'' then Fin 90 else NaN" "JStr ''0''"]
    alerts_threshold_default
      [of "\<lambda>v. if v = JStr ''0'' then Fin 0 else if v = JStr ''90'' then Fin 90 else NaN" JUndefined]
    alerts_threshold_default
      [of "\<lambda>v. if v = JStr ''0'' then Fin 0 else if v = JStr ''90'' then Fin 90 else NaN" "JStr ''90''"]
  by simp

section \<open>Results: summary and on-demand computation\<close>






















section \<open>Results: efficiency alerts\<close>

text \<open>
  C6. For every threshold t, the alerts are the summary rows whose ratio lies strictly
  between 0 and t, each with its vehicle id and ratio, in ascending order of ratio, each
  carrying the same fixed message; no alert has a ratio of 0 or of t and more. A call
  without threshold uses 85.
\<close>

theorem getEfficiencyAlerts_selection:
  "mset (map (\<lambda>a. (al_vehicleId a, al_efficiencyRatio a)) (getEfficiencyAlerts mv (Some t)))
     = mset (map (\<lambda>r. (pr_vehicle_id r, Fin (coalesce (pr_efficiency_ratio r) 0)))
          (filter (\<lambda>r. case pr_efficiency_ratio r of None \<Rightarrow> False | Some e \<Rightarrow> 0 < e \<and> e < t) mv))
   \<and> sorted_wrt (\<lambda>a b. \<not> num_lt (al_efficiencyRatio b) (al_efficiencyRatio a))
        (getEfficiencyAlerts mv (Some t))
   \<and> (\<forall>a \<in> set (getEfficiencyAlerts mv (Some t)).
        num_lt (Fin 0) (al_efficiencyRatio a) \<and> num_lt (al_efficiencyRatio a) (Fin t)
        \<and> al_alert a = ''Low efficiency - possible hardware fault or energy leakage'')
   \<and> getEfficiencyAlerts mv None = getEfficiencyAlerts mv (Some 85)"
proof -
  let ?sel = "filter (alert_selected t) mv"
  let ?key = "\<lambda>r. coalesce (pr_efficiency_ratio r) 0"
  have sel: "alert_selected t = (\<lambda>r. case pr_efficiency_ratio r of None \<Rightarrow> False | Some e \<Rightarrow> 0 < e \<and> e < t)"
    by (rule ext) (simp add: alert_selected_def)
  have ratio: "parseFloat_cell (numeric_cell (pr_efficiency_ratio r)) = Fin (?key r)"
    if "alert_selected t r" for r
    using that by (auto simp: alert_selected_def numeric_cell_def coalesce_def split: option.splits)
  have in_sel: "alert_selected t r" if "r \<in> set (sort_key ?key ?sel)" for r
    using that by simp
  have a: "map (\<lambda>a. (al_vehicleId a, al_efficiencyRatio a)) (getEfficiencyAlerts mv (Some t))
        = map (\<lambda>r. (pr_vehicle_id r, Fin (?key r))) (sort_key ?key ?sel)"
    using in_sel by (simp add: getEfficiencyAlerts_def Let_def ratio cong: map_cong)
  have b: "map al_efficiencyRatio (getEfficiencyAlerts mv (Some t)) = map (\<lambda>r. Fin (?key r)) (sort_key ?key ?sel)"
    using in_sel by (simp add: getEfficiencyAlerts_def Let_def ratio cong: map_cong)
  have "sorted (map ?key (sort_key ?key ?sel))" by (rule sorted_sort_key)
  then have "sorted_wrt (\<lambda>x y. \<not> num_lt y x) (map (\<lambda>r. Fin (?key r)) (sort_key ?key ?sel))"
    by (simp add: sorted_wrt_map sorted_map not_less) 
  then have c: "sorted_wrt (\<lambda>a b. \<not> num_lt (al_efficiencyRatio b) (al_efficiencyRatio a))
        (getEfficiencyAlerts mv (Some t))"
    unfolding b [symmetric] by (simp add: sorted_wrt_map)
  have d: "\<forall>a \<in> set (getEfficiencyAlerts mv (Some t)).
        num_lt (Fin 0) (al_efficiencyRatio a) \<and> num_lt (al_efficiencyRatio a) (Fin t)
        \<and> al_alert a = ''Low efficiency - possible hardware fault or energy leakage''"
    by (auto simp: getEfficiencyAlerts_def Let_def alert_selected_def numeric_cell_def
        split: option.splits)
  have e: "getEfficiencyAlerts mv None = getEfficiencyAlerts mv (Some 85)"
    by (simp add: getEfficiencyAlerts_def)
  have "mset (map (\<lambda>r. (pr_vehicle_id r, Fin (?key r))) (sort_key ?key ?sel))
      = mset (map (\<lambda>r. (pr_vehicle_id r, Fin (?key r))) ?sel)"
    by simp
  with a c d e show ?thesis by (simp add: sel)
qed

theorem getEfficiencyAlerts_selection_witness:
  "hd (getEfficiencyAlerts sample_summary (Some 90)) \<in> set (getEfficiencyAlerts sample_summary (Some 90))
   \<and> map al_vehicleId (getEfficiencyAlerts sample_summary (Some 90)) = [''V3'', ''V1'']
   \<and> num_lt (Fin 0) (al_efficiencyRatio (hd (getEfficiencyAlerts sample_summary (Some 90))))
   \<and> num_lt (al_efficiencyRatio (hd (getEfficiencyAlerts sample_summary (Some 90)))) (Fin 90)"
proof -
  have h: "hd (getEfficiencyAlerts sample_summary (Some 90))
      \<in> set (getEfficiencyAlerts sample_summary (Some 90))"
    by code_simp
  have v: "map al_vehicleId (getEfficiencyAlerts sample_summary (Some 90)) = [''V3'', ''V1'']"
    by code_simp
  from getEfficiencyAlerts_selection [of sample_summary 90] h v
  show ?thesis by blast
qed

section \<open>Results: single ingest\<close>

lemma thenE_Inr_iff: "thenE m f = Inr y \<longleftrightarrow> (\<exists>x. m = Inr x \<and> f x = Inr y)"
  by (cases m) (simp_all add: thenE_def)


lemma transaction_Inl: "transaction env sv cb s = (s', Inl e) \<Longrightarrow> s' = s"
  by (auto simp: transaction_def split: if_splits sum.splits)

lemma transaction_Inr: "transaction env sv cb s = (s', Inr x) \<Longrightarrow> cb s = Inr (s', x)"
  by (auto simp: transaction_def split: if_splits sum.splits)

lemma client_query_Inr:
  "client_query env q run s = Inr x \<longleftrightarrow> (\<not> query_fails env q \<and> run s = Inr x)"
  by (auto simp: client_query_def split: sum.splits)


lemma insert_vehicle_history_one:
  "insert_vehicle_history env [p] s = Inr s1 \<longleftrightarrow>
     (\<exists>row. vehicle_row_of env p = Inr row
        \<and> s1 = s\<lparr> vehicle_telemetry_history := vehicle_telemetry_history s @ [row] \<rparr>)"
  by (auto simp: insert_vehicle_history_def split: sum.splits)

lemma insert_meter_history_one:
  "insert_meter_history env [p] s = Inr s1 \<longleftrightarrow>
     (\<exists>row. meter_row_of env p = Inr row
        \<and> s1 = s\<lparr> meter_telemetry_history := meter_telemetry_history s @ [row] \<rparr>)"
  by (auto simp: insert_meter_history_def split: sum.splits)

lemma validateVehicleData_Inr:
  assumes "validateVehicleData env d = Inr u"
  shows "\<exists>v n kwh temp ts. vehicle_fields d = Inr (JStr v, JNum n, kwh, temp, ts)"
proof -
  from assms obtain vehicleId soc kwh temp ts where f: "vehicle_fields d = Inr (vehicleId, soc, kwh, temp, ts)"
    and ok: "is_string vehicleId" "\<not> not_number_or_outside soc 0 100"
    by (auto simp: validateVehicleData_def thenE_Inr_iff split: if_splits)
  from ok(1) obtain v where "vehicleId = JStr v" by (cases vehicleId) (simp_all add: is_string_def)
  moreover from ok(2) obtain n where "soc = JNum n"
    by (cases soc) (simp_all add: not_number_or_outside_def)
  ultimately show ?thesis using f by blast
qed

lemma vehicle_ingest_Inl:
  "VehicleService_ingest env d s = (s', Inl e) \<Longrightarrow> s' = s"
  by (auto simp: VehicleService_ingest_def split: sum.splits prod.splits dest: transaction_Inl)

lemma meter_ingest_Inl:
  "MeterService_ingest env d s = (s', Inl e) \<Longrightarrow> s' = s"
  by (auto simp: MeterService_ingest_def split: sum.splits prod.splits dest: transaction_Inl)

lemma vehicle_ingest_Inr:
  assumes "VehicleService_ingest env d s = (s', Inr res)"
  shows "\<exists>v n kwh temp ts row.
           vehicle_fields d = Inr (JStr v, JNum n, kwh, temp, ts)
         \<and> vehicle_row_of env (JStr v, JNum n, kwh, temp, ts) = Inr row
         \<and> vr_isCharging res = (case vehicle_current_status s v of None \<Rightarrow> False
                                  | Some prior \<Rightarrow> num_gt n (Fin (vs_soc prior)))
         \<and> s' = s\<lparr> vehicle_telemetry_history := vehicle_telemetry_history s @ [row],
                   vehicle_current_status := (vehicle_current_status s)(vh_vehicle_id row \<mapsto>
                     \<lparr> vs_soc = vh_soc row, vs_kwh_delivered_dc = vh_kwh_delivered_dc row,
                       vs_battery_temp = vh_battery_temp row, vs_last_updated = vh_recorded_at row,
                       vs_is_charging = vr_isCharging res \<rparr>) \<rparr>
         \<and> \<not> query_fails env (InsertHistory VehicleSvc)
         \<and> \<not> query_fails env (UpsertStatus VehicleSvc 0)"
proof -
  from assms obtain p u where p: "vehicle_fields d = Inr p" and u: "validateVehicleData env d = Inr u"
    by (auto simp: VehicleService_ingest_def split: sum.splits prod.splits)
  from validateVehicleData_Inr [OF u] p obtain v n kwh temp ts
    where pv: "p = (JStr v, JNum n, kwh, temp, ts)" by auto
  let ?p = "(JStr v, JNum n, kwh, temp, ts)"
  from assms p u pv have
    "transaction env VehicleSvc (\<lambda>s0.
       thenE (client_query env (InsertHistory VehicleSvc) (insert_vehicle_history env [?p]) s0) (\<lambda>s1.
       thenE (client_query env SelectPrevStatus (select_soc env (JStr v)) s1) (\<lambda>prevStatus_rows.
       let isCharging = (case prevStatus_rows of [] \<Rightarrow> False
                         | prev_soc # rest \<Rightarrow> gt_stored env (JNum n) prev_soc) in
       thenE (client_query env (UpsertStatus VehicleSvc 0)
                (upsert_vehicle_status env ?p isCharging) s1) (\<lambda>s2.
       Inr (s2, \<lparr> vr_vehicleId = JStr v, vr_type = ''vehicle'', vr_stored = True,
                  vr_timestamp = ts, vr_isCharging = isCharging \<rparr>))))) s = (s', Inr res)"
    by (simp add: VehicleService_ingest_def)
  from transaction_Inr [OF this]
  obtain s1 rows where i: "insert_vehicle_history env [?p] s = Inr s1"
    and sel: "select_soc env (JStr v) s1 = Inr rows"
    and up: "upsert_vehicle_status env ?p
               (case rows of [] \<Rightarrow> False | prev_soc # rest \<Rightarrow> gt_stored env (JNum n) prev_soc) s1 = Inr s'"
    and res: "res = \<lparr> vr_vehicleId = JStr v, vr_type = ''vehicle'', vr_stored = True,
                  vr_timestamp = ts, vr_isCharging =
               (case rows of [] \<Rightarrow> False | prev_soc # rest \<Rightarrow> gt_stored env (JNum n) prev_soc) \<rparr>"
    and nf: "\<not> query_fails env (InsertHistory VehicleSvc)" "\<not> query_fails env (UpsertStatus VehicleSvc 0)"
    by (auto simp: thenE_Inr_iff client_query_Inr Let_def)
  from i obtain row where row: "vehicle_row_of env ?p = Inr row"
    and s1: "s1 = s\<lparr> vehicle_telemetry_history := vehicle_telemetry_history s @ [row] \<rparr>"
    by (auto simp: insert_vehicle_history_one)
  from sel s1 have rows: "rows = (case vehicle_current_status s v of None \<Rightarrow> [] | Some r \<Rightarrow> [vs_soc r])"
    by (auto simp: select_soc_def split: option.splits)
  have ch: "vr_isCharging res = (case vehicle_current_status s v of None \<Rightarrow> False
                                  | Some prior \<Rightarrow> num_gt n (Fin (vs_soc prior)))"
    by (simp add: res rows split: option.splits)
  from up row s1 res have "s' = s\<lparr> vehicle_telemetry_history := vehicle_telemetry_history s @ [row],
                   vehicle_current_status := (vehicle_current_status s)(vh_vehicle_id row \<mapsto>
                     \<lparr> vs_soc = vh_soc row, vs_kwh_delivered_dc = vh_kwh_delivered_dc row,
                       vs_battery_temp = vh_battery_temp row, vs_last_updated = vh_recorded_at row,
                       vs_is_charging = vr_isCharging res \<rparr>) \<rparr>"
    by (auto simp: upsert_vehicle_status_def)
  with p pv row ch nf show ?thesis by blast
qed

lemma meter_ingest_Inr:
  assumes "MeterService_ingest env d s = (s', Inr res)"
  shows "\<exists>p row.
           meter_fields d = Inr p
         \<and> meter_row_of env p = Inr row
         \<and> s' = s\<lparr> meter_telemetry_history := meter_telemetry_history s @ [row],
                   meter_current_status := (meter_current_status s)(mh_meter_id row \<mapsto>
                     \<lparr> ms_kwh_consumed_ac = mh_kwh_consumed_ac row, ms_voltage = mh_voltage row,
                       ms_last_updated = mh_recorded_at row \<rparr>) \<rparr>
         \<and> \<not> query_fails env (InsertHistory MeterSvc)
         \<and> \<not> query_fails env (UpsertStatus MeterSvc 0)"
proof -
  from assms obtain p u where p: "meter_fields d = Inr p" and u: "validateMeterData env d = Inr u"
    by (auto simp: MeterService_ingest_def split: sum.splits prod.splits)
  obtain a b c t where pv: "p = (a, b, c, t)" by (cases p)
  from assms p u pv have
    "transaction env MeterSvc (\<lambda>s0.
       thenE (client_query env (InsertHistory MeterSvc) (insert_meter_history env [p]) s0) (\<lambda>s1.
       thenE (client_query env (UpsertStatus MeterSvc 0) (upsert_meter_status env p) s1) (\<lambda>s2.
       Inr (s2, \<lparr> mr_meterId = a, mr_type = ''meter'', mr_stored = True,
                  mr_timestamp = t \<rparr>)))) s = (s', Inr res)"
    by (simp add: MeterService_ingest_def)
  from transaction_Inr [OF this]
  obtain s1 where i: "insert_meter_history env [p] s = Inr s1"
    and up: "upsert_meter_status env p s1 = Inr s'"
    and nf: "\<not> query_fails env (InsertHistory MeterSvc)" "\<not> query_fails env (UpsertStatus MeterSvc 0)"
    by (auto simp: thenE_Inr_iff client_query_Inr)
  from i obtain row where row: "meter_row_of env p = Inr row"
    and s1: "s1 = s\<lparr> meter_telemetry_history := meter_telemetry_history s @ [row] \<rparr>"
    by (auto simp: insert_meter_history_one)
  from up row s1 have "s' = s\<lparr> meter_telemetry_history := meter_telemetry_history s @ [row],
                   meter_current_status := (meter_current_status s)(mh_meter_id row \<mapsto>
                     \<lparr> ms_kwh_consumed_ac = mh_kwh_consumed_ac row, ms_voltage = mh_voltage row,
                       ms_last_updated = mh_recorded_at row \<rparr>) \<rparr>"
    by (auto simp: upsert_meter_status_def)
  with p row nf show ?thesis by blast
qed

lemma vehicle_ingest_fault:
  assumes "query_fails env (InsertHistory VehicleSvc) \<or> query_fails env (UpsertStatus VehicleSvc 0)"
  shows "\<exists>e. VehicleService_ingest env d s = (s, Inl e)"
proof (cases "VehicleService_ingest env d s")
  case (Pair s' r)
  show ?thesis
  proof (cases r)
    case (Inl e)
    with Pair vehicle_ingest_Inl [of env d s s' e] show ?thesis by simp
  next
    case (Inr res)
    with Pair have "VehicleService_ingest env d s = (s', Inr res)" by simp
    from vehicle_ingest_Inr [OF this] assms show ?thesis by blast
  qed
qed

lemma meter_ingest_fault:
  assumes "query_fails env (InsertHistory MeterSvc) \<or> query_fails env (UpsertStatus MeterSvc 0)"
  shows "\<exists>e. MeterService_ingest env d s = (s, Inl e)"
proof (cases "MeterService_ingest env d s")
  case (Pair s' r)
  show ?thesis
  proof (cases r)
    case (Inl e)
    with Pair meter_ingest_Inl [of env d s s' e] show ?thesis by simp
  next
    case (Inr res)
    with Pair have "MeterService_ingest env d s = (s', Inr res)" by simp
    from meter_ingest_Inr [OF this] assms show ?thesis by blast
  qed
qed

text \<open>
  C3. A single ingest, meter or vehicle, changes the store all at once or not at all. If
  it fails for any reason (validation, a rejected value, a statement that fails), the
  store is the one before the call. If it succeeds, the history has one more row, holding
  the reading as the store keeps it, the status row of that device holds the same values,
  and nothing else has changed. When the history insert or the status upsert fails, the
  ingest fails.
\<close>

theorem ingest_dual_write_atomic:
  "(MeterService_ingest env d s = (s', r) \<longrightarrow>
      (case r of
         Inl e \<Rightarrow> s' = s
       | Inr res \<Rightarrow>
           (\<exists>p row. meter_fields d = Inr p \<and> meter_row_of env p = Inr row
              \<and> meter_telemetry_history s' = meter_telemetry_history s @ [row]
              \<and> meter_current_status s' = (meter_current_status s)(mh_meter_id row \<mapsto>
                    \<lparr> ms_kwh_consumed_ac = mh_kwh_consumed_ac row, ms_voltage = mh_voltage row,
                      ms_last_updated = mh_recorded_at row \<rparr>)
              \<and> vehicle_telemetry_history s' = vehicle_telemetry_history s
              \<and> vehicle_current_status s' = vehicle_current_status s)))
   \<and> (VehicleService_ingest env d s = (t', q) \<longrightarrow>
      (case q of
         Inl e \<Rightarrow> t' = s
       | Inr res \<Rightarrow>
           (\<exists>p row. vehicle_fields d = Inr p \<and> vehicle_row_of env p = Inr row
              \<and> vehicle_telemetry_history t' = vehicle_telemetry_history s @ [row]
              \<and> vehicle_current_status t' = (vehicle_current_status s)(vh_vehicle_id row \<mapsto>
                    \<lparr> vs_soc = vh_soc row, vs_kwh_delivered_dc = vh_kwh_delivered_dc row,
                      vs_battery_temp = vh_battery_temp row, vs_last_updated = vh_recorded_at row,
                      vs_is_charging = vr_isCharging res \<rparr>)
              \<and> meter_telemetry_history t' = meter_telemetry_history s
              \<and> meter_current_status t' = meter_current_status s)))
   \<and> (query_fails env (InsertHistory MeterSvc) \<or> query_fails env (UpsertStatus MeterSvc 0) \<longrightarrow>
        (\<exists>e. MeterService_ingest env d s = (s, Inl e)))
   \<and> (query_fails env (InsertHistory VehicleSvc) \<or> query_fails env (UpsertStatus VehicleSvc 0) \<longrightarrow>
        (\<exists>e. VehicleService_ingest env d s = (s, Inl e)))"
proof (intro conjI impI)
  assume a: "MeterService_ingest env d s = (s', r)"
  show "case r of
         Inl e \<Rightarrow> s' = s
       | Inr res \<Rightarrow>
           (\<exists>p row. meter_fields d = Inr p \<and> meter_row_of env p = Inr row
              \<and> meter_telemetry_history s' = meter_telemetry_history s @ [row]
              \<and> meter_current_status s' = (meter_current_status s)(mh_meter_id row \<mapsto>
                    \<lparr> ms_kwh_consumed_ac = mh_kwh_consumed_ac row, ms_voltage = mh_voltage row,
                      ms_last_updated = mh_recorded_at row \<rparr>)
              \<and> vehicle_telemetry_history s' = vehicle_telemetry_history s
              \<and> vehicle_current_status s' = vehicle_current_status s)"
  proof (cases r)
    case (Inl e)
    with a meter_ingest_Inl show ?thesis by simp
  next
    case (Inr res)
    with a meter_ingest_Inr [of env d s s' res] show ?thesis by auto
  qed
next
  assume a: "VehicleService_ingest env d s = (t', q)"
  show "case q of
         Inl e \<Rightarrow> t' = s
       | Inr res \<Rightarrow>
           (\<exists>p row. vehicle_fields d = Inr p \<and> vehicle_row_of env p = Inr row
              \<and> vehicle_telemetry_history t' = vehicle_telemetry_history s @ [row]
              \<and> vehicle_current_status t' = (vehicle_current_status s)(vh_vehicle_id row \<mapsto>
                    \<lparr> vs_soc = vh_soc row, vs_kwh_delivered_dc = vh_kwh_delivered_dc row,
                      vs_battery_temp = vh_battery_temp row, vs_last_updated = vh_recorded_at row,
                      vs_is_charging = vr_isCharging res \<rparr>)
              \<and> meter_telemetry_history t' = meter_telemetry_history s
              \<and> meter_current_status t' = meter_current_status s)"
  proof (cases q)
    case (Inl e)
    with a vehicle_ingest_Inl show ?thesis by simp
  next
    case (Inr res)
    with a vehicle_ingest_Inr [of env d s t' res] show ?thesis by auto
  qed
next
  assume "query_fails env (InsertHistory MeterSvc) \<or> query_fails env (UpsertStatus MeterSvc 0)"
  then show "\<exists>e. MeterService_ingest env d s = (s, Inl e)" by (rule meter_ingest_fault)
next
  assume "query_fails env (InsertHistory VehicleSvc) \<or> query_fails env (UpsertStatus VehicleSvc 0)"
  then show "\<exists>e. VehicleService_ingest env d s = (s, Inl e)" by (rule vehicle_ingest_fault)
qed

theorem ingest_dual_write_atomic_witness:
  "query_fails sample_env_upsert_fault (UpsertStatus VehicleSvc 0)
   \<and> (\<exists>e. VehicleService_ingest sample_env_upsert_fault sample_v40 empty_store = (empty_store, Inl e))
   \<and> (\<exists>e. MeterService_ingest sample_env_upsert_fault sample_m1 empty_store = (empty_store, Inl e))
   \<and> \<not> isl (snd (MeterService_ingest sample_env sample_m1 empty_store))
   \<and> (\<exists>p row. meter_fields sample_m1 = Inr p \<and> meter_row_of sample_env p = Inr row
         \<and> meter_telemetry_history (fst (MeterService_ingest sample_env sample_m1 empty_store))
             = meter_telemetry_history empty_store @ [row]
         \<and> vehicle_telemetry_history (fst (MeterService_ingest sample_env sample_m1 empty_store))
             = vehicle_telemetry_history empty_store)
   \<and> meter_telemetry_history (fst (MeterService_ingest sample_env sample_m1 empty_store))
       = [\<lparr> mh_meter_id = ''M1'', mh_kwh_consumed_ac = 125 / 10, mh_voltage = 230,
            mh_recorded_at = 1704110400000000 \<rparr>]
   \<and> meter_current_status (fst (MeterService_ingest sample_env sample_m1 empty_store)) ''M1''
       = Some \<lparr> ms_kwh_consumed_ac = 125 / 10, ms_voltage = 230, ms_last_updated = 1704110400000000 \<rparr>
   \<and> \<not> isl (snd (VehicleService_ingest sample_env sample_v40 empty_store))
   \<and> (\<exists>p row. vehicle_fields sample_v40 = Inr p \<and> vehicle_row_of sample_env p = Inr row
         \<and> vehicle_telemetry_history (fst (VehicleService_ingest sample_env sample_v40 empty_store))
             = vehicle_telemetry_history empty_store @ [row]
         \<and> meter_telemetry_history (fst (VehicleService_ingest sample_env sample_v40 empty_store))
             = meter_telemetry_history empty_store)
   \<and> vehicle_telemetry_history (fst (VehicleService_ingest sample_env sample_v40 empty_store))
       = [\<lparr> vh_vehicle_id = ''V1'', vh_soc = 40, vh_kwh_delivered_dc = 5, vh_battery_temp = 25,
            vh_recorded_at = 1704110400000000 \<rparr>]
   \<and> vehicle_current_status (fst (VehicleService_ingest sample_env sample_v40 empty_store)) ''V1''
       = Some \<lparr> vs_soc = 40, vs_kwh_delivered_dc = 5, vs_battery_temp = 25,
                vs_last_updated = 1704110400000000, vs_is_charging = False \<rparr>"
proof -
  let ?M = "MeterService_ingest sample_env sample_m1 empty_store"
  let ?V = "VehicleService_ingest sample_env sample_v40 empty_store"
  have f: "query_fails sample_env_upsert_fault (UpsertStatus VehicleSvc 0)"
    "query_fails sample_env_upsert_fault (UpsertStatus MeterSvc 0)"
    by (simp_all add: sample_env_upsert_fault_def)
  have m: "\<not> isl (snd ?M)"
    "meter_telemetry_history (fst ?M)
       = [\<lparr> mh_meter_id = ''M1'', mh_kwh_consumed_ac = 125 / 10, mh_voltage = 230,
            mh_recorded_at = 1704110400000000 \<rparr>]"
    "meter_current_status (fst ?M) ''M1''
       = Some \<lparr> ms_kwh_consumed_ac = 125 / 10, ms_voltage = 230, ms_last_updated = 1704110400000000 \<rparr>"
    by code_simp+
  have v: "\<not> isl (snd ?V)"
    "vehicle_telemetry_history (fst ?V)
       = [\<lparr> vh_vehicle_id = ''V1'', vh_soc = 40, vh_kwh_delivered_dc = 5, vh_battery_temp = 25,
            vh_recorded_at = 1704110400000000 \<rparr>]"
    "vehicle_current_status (fst ?V) ''V1''
       = Some \<lparr> vs_soc = 40, vs_kwh_delivered_dc = 5, vs_battery_temp = 25,
                vs_last_updated = 1704110400000000, vs_is_charging = False \<rparr>"
    by code_simp+
  from m(1) obtain mres where "snd ?M = Inr mres" by (cases "snd ?M") auto
  then have "?M = (fst ?M, Inr mres)" by (metis prod.collapse)
  with ingest_dual_write_atomic [of sample_env sample_m1 empty_store "fst ?M" "Inr mres",
      THEN conjunct1]
  have "\<exists>p row. meter_fields sample_m1 = Inr p \<and> meter_row_of sample_env p = Inr row
         \<and> meter_telemetry_history (fst ?M) = meter_telemetry_history empty_store @ [row]
         \<and> meter_current_status (fst ?M) = (meter_current_status empty_store)(mh_meter_id row \<mapsto>
               \<lparr> ms_kwh_consumed_ac = mh_kwh_consumed_ac row, ms_voltage = mh_voltage row,
                 ms_last_updated = mh_recorded_at row \<rparr>)
         \<and> vehicle_telemetry_history (fst ?M) = vehicle_telemetry_history empty_store
         \<and> vehicle_current_status (fst ?M) = vehicle_current_status empty_store"
    by simp
  then have ms: "\<exists>p row. meter_fields sample_m1 = Inr p \<and> meter_row_of sample_env p = Inr row
         \<and> meter_telemetry_history (fst ?M) = meter_telemetry_history empty_store @ [row]
         \<and> vehicle_telemetry_history (fst ?M) = vehicle_telemetry_history empty_store"
    by blast
  from v(1) obtain vres where "snd ?V = Inr vres" by (cases "snd ?V") auto
  then have "?V = (fst ?V, Inr vres)" by (metis prod.collapse)
  with ingest_dual_write_atomic [of sample_env sample_v40 empty_store _ _ "fst ?V" "Inr vres",
      THEN conjunct2, THEN conjunct1]
  have "\<exists>p row. vehicle_fields sample_v40 = Inr p \<and> vehicle_row_of sample_env p = Inr row
         \<and> vehicle_telemetry_history (fst ?V) = vehicle_telemetry_history empty_store @ [row]
         \<and> vehicle_current_status (fst ?V) = (vehicle_current_status empty_store)(vh_vehicle_id row \<mapsto>
               \<lparr> vs_soc = vh_soc row, vs_kwh_delivered_dc = vh_kwh_delivered_dc row,
                 vs_battery_temp = vh_battery_temp row, vs_last_updated = vh_recorded_at row,
                 vs_is_charging = vr_isCharging vres \<rparr>)
         \<and> meter_telemetry_history (fst ?V) = meter_telemetry_history empty_store
         \<and> meter_current_status (fst ?V) = meter_current_status empty_store"
    by simp
  then have vs: "\<exists>p row. vehicle_fields sample_v40 = Inr p \<and> vehicle_row_of sample_env p = Inr row
         \<and> vehicle_telemetry_history (fst ?V) = vehicle_telemetry_history empty_store @ [row]
         \<and> meter_telemetry_history (fst ?V) = meter_telemetry_history empty_store"
    by blast
  from ingest_dual_write_atomic [of sample_env_upsert_fault sample_v40 empty_store] f
  have "\<exists>e. VehicleService_ingest sample_env_upsert_fault sample_v40 empty_store = (empty_store, Inl e)"
    by blast
  moreover from ingest_dual_write_atomic [of sample_env_upsert_fault sample_m1 empty_store] f
  have "\<exists>e. MeterService_ingest sample_env_upsert_fault sample_m1 empty_store = (empty_store, Inl e)"
    by blast
  ultimately show ?thesis using f m v ms vs by blast
qed








section \<open>Results: batch ingest\<close>

lemma upsert_vehicle_status_Inr:
  "upsert_vehicle_status env p c s = Inr s' \<longleftrightarrow>
     (\<exists>row. vehicle_row_of env p = Inr row
        \<and> s' = s\<lparr> vehicle_current_status := (vehicle_current_status s)(vh_vehicle_id row \<mapsto>
            \<lparr> vs_soc = vh_soc row, vs_kwh_delivered_dc = vh_kwh_delivered_dc row,
              vs_battery_temp = vh_battery_temp row, vs_last_updated = vh_recorded_at row,
              vs_is_charging = c \<rparr>) \<rparr>)"
  by (auto simp: upsert_vehicle_status_def split: sum.splits)

lemma vehicle_upserts_Cons:
  "vehicle_upserts env (x # xs) i s = Inr s' \<longleftrightarrow>
     (\<exists>p s1. vehicle_fields x = Inr p \<and> \<not> query_fails env (UpsertStatus VehicleSvc i)
        \<and> upsert_vehicle_status env p False s = Inr s1 \<and> vehicle_upserts env xs (Suc i) s1 = Inr s')"
  by (auto simp: thenE_Inr_iff client_query_Inr)

lemma vehicle_upserts_keeps_false:
  assumes "vehicle_upserts env xs i s = Inr s'"
    and "\<exists>st. vehicle_current_status s k = Some st \<and> \<not> vs_is_charging st"
  shows "\<exists>st. vehicle_current_status s' k = Some st \<and> \<not> vs_is_charging st"
  using assms
proof (induction xs arbitrary: i s)
  case Nil
  then show ?case by simp
next
  case (Cons x xs)
  from Cons.prems(1) obtain p s1 where u: "upsert_vehicle_status env p False s = Inr s1"
    and rest: "vehicle_upserts env xs (Suc i) s1 = Inr s'"
    unfolding vehicle_upserts_Cons by blast
  from u Cons.prems(2) have "\<exists>st. vehicle_current_status s1 k = Some st \<and> \<not> vs_is_charging st"
    by (auto simp: upsert_vehicle_status_Inr)
  from Cons.IH [OF rest this] show ?case .
qed

lemma vehicle_upserts_all_false:
  assumes "vehicle_upserts env xs i s = Inr s'"
  shows "\<forall>d \<in> set xs. \<exists>p row st. vehicle_fields d = Inr p \<and> vehicle_row_of env p = Inr row
           \<and> vehicle_current_status s' (vh_vehicle_id row) = Some st \<and> \<not> vs_is_charging st"
  using assms
proof (induction xs arbitrary: i s)
  case Nil
  then show ?case by simp
next
  case (Cons x xs)
  from Cons.prems obtain p s1 where f: "vehicle_fields x = Inr p"
    and u: "upsert_vehicle_status env p False s = Inr s1"
    and rest: "vehicle_upserts env xs (Suc i) s1 = Inr s'"
    unfolding vehicle_upserts_Cons by blast
  from u obtain row where row: "vehicle_row_of env p = Inr row"
    and "\<exists>st. vehicle_current_status s1 (vh_vehicle_id row) = Some st \<and> \<not> vs_is_charging st"
    by (auto simp: upsert_vehicle_status_Inr)
  from vehicle_upserts_keeps_false [OF rest this(2)] f row
  have "\<exists>p row st. vehicle_fields x = Inr p \<and> vehicle_row_of env p = Inr row
           \<and> vehicle_current_status s' (vh_vehicle_id row) = Some st \<and> \<not> vs_is_charging st"
    by blast
  with Cons.IH [OF rest] show ?case by simp
qed

lemma insert_vehicle_history_Inr:
  "insert_vehicle_history env ps s = Inr s1 \<longleftrightarrow>
     (\<exists>rows. all_rows (map (vehicle_row_of env) ps) = Inr rows
        \<and> s1 = s\<lparr> vehicle_telemetry_history := vehicle_telemetry_history s @ rows \<rparr>)"
  by (auto simp: insert_vehicle_history_def split: sum.splits)

lemma vehicle_batch_Inr:
  assumes "VehicleService_ingestBatch env (JArr xs) s = (s', Inr n)" and "xs \<noteq> []"
  shows "\<exists>ps rows s1. all_fields vehicle_fields xs = Inr ps
           \<and> all_rows (map (vehicle_row_of env) ps) = Inr rows
           \<and> s1 = s\<lparr> vehicle_telemetry_history := vehicle_telemetry_history s @ rows \<rparr>
           \<and> vehicle_upserts env xs 0 s1 = Inr s' \<and> n = length xs"
proof -
  from assms have
    "transaction env VehicleSvc (\<lambda>s0.
         thenE (all_fields vehicle_fields xs) (\<lambda>historyParams.
         thenE (client_query env (InsertHistory VehicleSvc)
                  (insert_vehicle_history env historyParams) s0) (\<lambda>s1.
         thenE (vehicle_upserts env xs 0 s1) (\<lambda>s2.
         Inr (s2, length xs))))) s = (s', Inr n)"
    by (simp add: VehicleService_ingestBatch_def)
  from transaction_Inr [OF this] show ?thesis
    by (auto simp: thenE_Inr_iff client_query_Inr insert_vehicle_history_Inr)
qed

text \<open>
  C5. After a successful vehicle batch, every record of the batch has a status row for
  its vehicle, and that row has isCharging = false, whatever the store held before.
\<close>

theorem batch_isCharging_false:
  "VehicleService_ingestBatch env (JArr xs) s = (s', Inr n) \<longrightarrow>
     (\<forall>d \<in> set xs. \<exists>p row st. vehicle_fields d = Inr p \<and> vehicle_row_of env p = Inr row
        \<and> vehicle_current_status s' (vh_vehicle_id row) = Some st \<and> \<not> vs_is_charging st)"
proof (cases "xs = []")
  case True
  then show ?thesis by simp
next
  case False
  show ?thesis
  proof
    assume "VehicleService_ingestBatch env (JArr xs) s = (s', Inr n)"
    from vehicle_batch_Inr [OF this False] obtain s1 where "vehicle_upserts env xs 0 s1 = Inr s'"
      by blast
    then show "\<forall>d \<in> set xs. \<exists>p row st. vehicle_fields d = Inr p \<and> vehicle_row_of env p = Inr row
        \<and> vehicle_current_status s' (vh_vehicle_id row) = Some st \<and> \<not> vs_is_charging st"
      by (rule vehicle_upserts_all_false)
  qed
qed

theorem batch_isCharging_false_witness:
  "snd (VehicleService_ingestBatch sample_env (JArr [sample_v55])
          (fst (VehicleService_ingest sample_env sample_v40 empty_store))) = Inr 1
   \<and> (\<exists>p row st. vehicle_fields sample_v55 = Inr p \<and> vehicle_row_of sample_env p = Inr row
        \<and> vehicle_current_status (fst (VehicleService_ingestBatch sample_env (JArr [sample_v55])
             (fst (VehicleService_ingest sample_env sample_v40 empty_store)))) (vh_vehicle_id row) = Some st
        \<and> \<not> vs_is_charging st)
   \<and> map_option vs_soc (vehicle_current_status
        (fst (VehicleService_ingest sample_env sample_v40 empty_store)) ''V1'') = Some 40
   \<and> vehicle_current_status (fst (VehicleService_ingestBatch sample_env (JArr [sample_v55])
          (fst (VehicleService_ingest sample_env sample_v40 empty_store)))) ''V1''
       = Some \<lparr> vs_soc = 55, vs_kwh_delivered_dc = 8, vs_battery_temp = 27,
                vs_last_updated = 1704114000000000, vs_is_charging = False \<rparr>
   \<and> map_sum id vr_isCharging (snd (VehicleService_ingest sample_env sample_v55
          (fst (VehicleService_ingest sample_env sample_v40 empty_store)))) = Inr True"
proof -
  let ?s1 = "fst (VehicleService_ingest sample_env sample_v40 empty_store)"
  have r: "snd (VehicleService_ingestBatch sample_env (JArr [sample_v55]) ?s1) = Inr 1"
    by code_simp
  then have h: "VehicleService_ingestBatch sample_env (JArr [sample_v55]) ?s1
      = (fst (VehicleService_ingestBatch sample_env (JArr [sample_v55]) ?s1), Inr 1)"
    by (metis prod.collapse)
  have c: "map_option vs_soc (vehicle_current_status ?s1 ''V1'') = Some 40"
    "vehicle_current_status (fst (VehicleService_ingestBatch sample_env (JArr [sample_v55]) ?s1)) ''V1''
       = Some \<lparr> vs_soc = 55, vs_kwh_delivered_dc = 8, vs_battery_temp = 27,
                vs_last_updated = 1704114000000000, vs_is_charging = False \<rparr>"
    "map_sum id vr_isCharging (snd (VehicleService_ingest sample_env sample_v55 ?s1)) = Inr True"
    by code_simp+
  from batch_isCharging_false [of sample_env "[sample_v55]" ?s1
      "fst (VehicleService_ingestBatch sample_env (JArr [sample_v55]) ?s1)" 1] h
  have "\<exists>p row st. vehicle_fields sample_v55 = Inr p \<and> vehicle_row_of sample_env p = Inr row
        \<and> vehicle_current_status (fst (VehicleService_ingestBatch sample_env (JArr [sample_v55]) ?s1))
              (vh_vehicle_id row) = Some st
        \<and> \<not> vs_is_charging st"
    by simp
  with r c show ?thesis by blast
qed




lemma get_prop_obj: "is_object d \<Longrightarrow> \<exists>v. get_prop d k = Inr v"
  by (cases d) (simp_all add: is_object_def)


























end
